theory Spec2Isabelle
  imports Complex_Main "HOL-Library.Char_ord" "HOL-Library.List_Lexorder" "HOL-Library.Multiset"
begin

section \<open>Python values\<close>

text \<open>
  The patient record is a dictionary read from JSON. Its values are modelled by
  \<open>pyval\<close>: \<open>None\<close>, booleans, unbounded integers, floats, strings and lists.
  A float is either a finite value, kept as the rational number it denotes (every
  double is one; comparison with an integer and truncation are exact on it), or one
  of \<open>inf\<close>, \<open>-inf\<close>, \<open>nan\<close>. A string is a sequence of characters with code
  points below 256. A JSON object stored as a value behaves like a list in every
  operation modelled here (unhashable, not a number) and has no constructor of its own.
\<close>

datatype pyfloat = Fin rat | PosInf | NegInf | NaN

datatype pyval =
    PNone
  | PBool bool
  | PInt int
  | PFloat pyfloat
  | PStr string
  | PList "pyval list"

text \<open>
  The exception classes that occur. An exception of a subclass counts as its base
  class (\<open>except (ValueError, TypeError)\<close> catches subclasses too).
\<close>

datatype exn = ValueError | TypeError | OverflowError | KeyError | ZeroDivisionError

type_synonym sample = "string \<rightharpoonup> pyval"

subsection \<open>Built-in operations on values\<close>

text \<open>\<open>val in NULL\<close> for \<open>NULL = {None, 'NaN', '', ' '}\<close>: membership in a set hashes
  the value first, which raises \<open>TypeError\<close> for a list.\<close>

definition in_NULL :: "pyval \<Rightarrow> exn + bool" where
  "in_NULL v =
     (case v of
        PList xs \<Rightarrow> Inl TypeError
      | PNone \<Rightarrow> Inr True
      | PStr s \<Rightarrow> Inr (s = ''NaN'' \<or> s = '''' \<or> s = '' '')
      | _ \<Rightarrow> Inr False)"

text \<open>\<open>str.isspace\<close>, \<open>str.strip\<close> and \<open>str.lower\<close> on code points below 256.\<close>

definition isspace :: "char \<Rightarrow> bool" where
  "isspace c =
     (let n = (of_char c :: nat)
      in (9 \<le> n \<and> n \<le> 13) \<or> (28 \<le> n \<and> n \<le> 32) \<or> n = 133 \<or> n = 160)"

definition strip :: "string \<Rightarrow> string" where
  "strip s = rev (dropWhile isspace (rev (dropWhile isspace s)))"

definition lower_char :: "char \<Rightarrow> char" where
  "lower_char c =
     (let n = (of_char c :: nat)
      in if (65 \<le> n \<and> n \<le> 90) \<or> (192 \<le> n \<and> n \<le> 222 \<and> n \<noteq> 215)
         then char_of (n + 32) else c)"

definition lower :: "string \<Rightarrow> string" where
  "lower s = map lower_char s"

text \<open>Decimal numerals, as \<open>str(n)\<close> and the f-strings print them.\<close>

definition digit_char :: "nat \<Rightarrow> char" where
  "digit_char d = char_of (48 + d)"

fun str_nat :: "nat \<Rightarrow> string" where
  "str_nat n = (if n < 10 then [digit_char n] else str_nat (n div 10) @ [digit_char (n mod 10)])"

declare str_nat.simps [simp del]

definition str_int :: "int \<Rightarrow> string" where
  "str_int i = (if i < 0 then CHR ''-'' # str_nat (nat (- i)) else str_nat (nat i))"

text \<open>Truncation towards zero, as \<open>int(x)\<close> does on a finite float.\<close>

definition trunc :: "rat \<Rightarrow> int" where
  "trunc q = (if 0 \<le> q then \<lfloor>q\<rfloor> else \<lceil>q\<rceil>)"

text \<open>
  \<open>str(v)\<close>. For a finite float Python prints the shortest decimal numeral that reads
  back as the same double; the model prints only its integral part followed by
  \<open>.0\<close>, so the digits after the point are not those of Python. For a list the text
  between the brackets is left out. \<open>safe_get\<close> compares the text with the words
  \<open>true\<close> and \<open>false\<close> only, which no numeral and no bracketed text equals, and it
  raises on a list before it prints it.
\<close>

definition float_str :: "pyfloat \<Rightarrow> string" where
  "float_str f =
     (case f of
        NaN \<Rightarrow> ''nan''
      | PosInf \<Rightarrow> ''inf''
      | NegInf \<Rightarrow> ''-inf''
      | Fin q \<Rightarrow> str_int (trunc q) @ ''.0'')"

definition py_str :: "pyval \<Rightarrow> string" where
  "py_str v =
     (case v of
        PNone \<Rightarrow> ''None''
      | PBool b \<Rightarrow> (if b then ''True'' else ''False'')
      | PInt i \<Rightarrow> str_int i
      | PFloat f \<Rightarrow> float_str f
      | PStr s \<Rightarrow> s
      | PList xs \<Rightarrow> ''[...]'')"

text \<open>
  \<open>int(v)\<close>, the default \<open>cast\<close> of \<open>safe_get\<close>. A string is stripped of surrounding
  white space, may start with one sign, and then consists of decimal digits, with
  single underscores allowed between digits.
\<close>

definition is_digit :: "char \<Rightarrow> bool" where
  "is_digit c = (let n = (of_char c :: nat) in 48 \<le> n \<and> n \<le> 57)"

definition digit_val :: "char \<Rightarrow> int" where
  "digit_val c = int (of_char c) - 48"

fun double_underscore :: "string \<Rightarrow> bool" where
  "double_underscore (a # b # s) = ((a = CHR ''_'' \<and> b = CHR ''_'') \<or> double_underscore (b # s))"
| "double_underscore s = False"

definition parse_digits :: "string \<Rightarrow> int option" where
  "parse_digits s =
     (if s = [] \<or> \<not> is_digit (hd s) \<or> \<not> is_digit (last s)
         \<or> \<not> list_all (\<lambda>c. is_digit c \<or> c = CHR ''_'') s \<or> double_underscore s
      then None
      else Some (foldl (\<lambda>a c. 10 * a + digit_val c) 0 (filter is_digit s)))"

definition int_of_str :: "string \<Rightarrow> int option" where
  "int_of_str s =
     (case strip s of
        [] \<Rightarrow> None
      | c # r \<Rightarrow>
          if c = CHR ''-'' then map_option uminus (parse_digits r)
          else if c = CHR ''+'' then parse_digits r
          else parse_digits (c # r))"

definition py_int :: "pyval \<Rightarrow> exn + pyval" where
  "py_int v =
     (case v of
        PNone \<Rightarrow> Inl TypeError
      | PBool b \<Rightarrow> Inr (PInt (if b then 1 else 0))
      | PInt i \<Rightarrow> Inr (PInt i)
      | PFloat f \<Rightarrow>
          (case f of
             NaN \<Rightarrow> Inl ValueError
           | PosInf \<Rightarrow> Inl OverflowError
           | NegInf \<Rightarrow> Inl OverflowError
           | Fin q \<Rightarrow> Inr (PInt (trunc q)))
      | PStr s \<Rightarrow> (case int_of_str s of None \<Rightarrow> Inl ValueError | Some i \<Rightarrow> Inr (PInt i))
      | PList xs \<Rightarrow> Inl TypeError)"

text \<open>
  \<open>a == b\<close>. Booleans, integers and finite floats compare by numeric value
  (\<open>True == 1\<close>, \<open>1 == 1.0\<close>); \<open>nan\<close> equals nothing; values of different kinds are
  unequal; lists compare element by element.
\<close>

definition num_val :: "pyval \<Rightarrow> rat option" where
  "num_val v =
     (case v of
        PBool b \<Rightarrow> Some (if b then 1 else 0)
      | PInt i \<Rightarrow> Some (of_int i)
      | PFloat f \<Rightarrow> (case f of Fin q \<Rightarrow> Some q | _ \<Rightarrow> None)
      | _ \<Rightarrow> None)"


fun py_eq :: "pyval \<Rightarrow> pyval \<Rightarrow> bool"
  and py_eq_list :: "pyval list \<Rightarrow> pyval list \<Rightarrow> bool" where
  "py_eq PNone b = (b = PNone)"
| "py_eq (PStr s) b = (b = PStr s)"
| "py_eq (PBool x) b = (num_val b = Some (if x then 1 else 0))"
| "py_eq (PInt i) b = (num_val b = Some (of_int i))"
| "py_eq (PFloat f) b =
     (case f of Fin q \<Rightarrow> num_val b = Some q | NaN \<Rightarrow> False | _ \<Rightarrow> b = PFloat f)"
| "py_eq (PList xs) b = (case b of PList ys \<Rightarrow> py_eq_list xs ys | _ \<Rightarrow> False)"
| "py_eq_list [] ys = (ys = [])"
| "py_eq_list (x # xs) ys = (case ys of [] \<Rightarrow> False | y # ys' \<Rightarrow> py_eq x y \<and> py_eq_list xs ys')"

text \<open>\<open>x in values\<close> for a list of values: some element equals \<open>x\<close>.\<close>

definition py_in :: "pyval \<Rightarrow> pyval list \<Rightarrow> bool" where
  "py_in x vs = list_ex (py_eq x) vs"

text \<open>
  \<open>v < n\<close> and \<open>v >= n\<close> for an integer literal \<open>n\<close>: defined between numbers
  (every comparison with \<open>nan\<close> is false), \<open>TypeError\<close> for \<open>None\<close>, a string or a list.
\<close>

definition py_lt :: "pyval \<Rightarrow> int \<Rightarrow> exn + bool" where
  "py_lt v n =
     (case v of
        PBool b \<Rightarrow> Inr ((if b then 1 else 0) < n)
      | PInt i \<Rightarrow> Inr (i < n)
      | PFloat f \<Rightarrow>
          (case f of
             Fin q \<Rightarrow> Inr (q < of_int n)
           | PosInf \<Rightarrow> Inr False
           | NegInf \<Rightarrow> Inr True
           | NaN \<Rightarrow> Inr False)
      | _ \<Rightarrow> Inl TypeError)"

definition py_ge :: "pyval \<Rightarrow> int \<Rightarrow> exn + bool" where
  "py_ge v n =
     (case v of
        PBool b \<Rightarrow> Inr ((if b then 1 else 0) \<ge> n)
      | PInt i \<Rightarrow> Inr (i \<ge> n)
      | PFloat f \<Rightarrow>
          (case f of
             Fin q \<Rightarrow> Inr (q \<ge> of_int n)
           | PosInf \<Rightarrow> Inr True
           | NegInf \<Rightarrow> Inr False
           | NaN \<Rightarrow> Inr False)
      | _ \<Rightarrow> Inl TypeError)"

text \<open>The truth value of \<open>v\<close> in a condition.\<close>

definition truthy :: "pyval \<Rightarrow> bool" where
  "truthy v =
     (case v of
        PNone \<Rightarrow> False
      | PBool b \<Rightarrow> b
      | PInt i \<Rightarrow> i \<noteq> 0
      | PFloat f \<Rightarrow> f \<noteq> Fin 0
      | PStr s \<Rightarrow> s \<noteq> []
      | PList xs \<Rightarrow> xs \<noteq> [])"

text \<open>\<open>d.get(key, default)\<close>.\<close>

definition dict_get :: "sample \<Rightarrow> string \<Rightarrow> pyval \<Rightarrow> pyval" where
  "dict_get d key dflt = (case d key of None \<Rightarrow> dflt | Some v \<Rightarrow> v)"

text \<open>\<open>sep.join(xs)\<close>.\<close>

fun join :: "string \<Rightarrow> string list \<Rightarrow> string" where
  "join sep [] = []"
| "join sep [x] = x"
| "join sep (x # y # ys) = x @ sep @ join sep (y # ys)"

section \<open>comorbidities.py\<close>

subsection \<open>safe\_get\<close>

text \<open>
  \<open>cast\<close> is any function that returns a value or raises. The \<open>try\<close> block catches
  \<open>ValueError\<close> and \<open>TypeError\<close>; every other exception of \<open>cast\<close> leaves the function.
\<close>

definition safe_get :: "sample \<Rightarrow> string \<Rightarrow> pyval \<Rightarrow> (pyval \<Rightarrow> exn + pyval) \<Rightarrow> exn + pyval" where
  "safe_get sample key sentinel cast =
     (let val = dict_get sample key sentinel
      in case in_NULL val of
           Inl e \<Rightarrow> Inl e
         | Inr True \<Rightarrow> Inr sentinel
         | Inr False \<Rightarrow>
             (let val_str = lower (strip (py_str val))
              in if val_str = ''true'' then Inr (PBool True)
                 else if val_str = ''false'' then Inr (PBool False)
                 else (case cast val of
                         Inr r \<Rightarrow> Inr r
                       | Inl e \<Rightarrow> if e = ValueError \<or> e = TypeError then Inr sentinel else Inl e)))"

subsection \<open>get\_comorbidities\<close>

text \<open>
  The rule table \<open>COMORBIDITY_MAPPING.json\<close> is not part of the sources and is a
  parameter: an ordered dictionary from a label to its list of conditions, a condition
  being an ordered dictionary from a field name to the list of accepted values.
\<close>

type_synonym condition = "(string \<times> pyval list) list"
type_synonym comorbidity_mapping = "(string \<times> condition list) list"

text \<open>\<open>all(safe_get(sample_data, key) in value for key, value in condition.items())\<close>:
  stops at the first pair that is not met; an exception of \<open>safe_get\<close> leaves it.\<close>

fun all_criteria :: "sample \<Rightarrow> condition \<Rightarrow> exn + bool" where
  "all_criteria sample [] = Inr True"
| "all_criteria sample ((key, value) # rest) =
     (case safe_get sample key PNone py_int of
        Inl e \<Rightarrow> Inl e
      | Inr x \<Rightarrow> if py_in x value then all_criteria sample rest else Inr False)"

text \<open>The inner loop \<open>for condition in logic\<close> with its \<open>break\<close>: is some condition met?\<close>

fun any_condition :: "sample \<Rightarrow> condition list \<Rightarrow> exn + bool" where
  "any_condition sample [] = Inr False"
| "any_condition sample (condition # rest) =
     (case all_criteria sample condition of
        Inl e \<Rightarrow> Inl e
      | Inr True \<Rightarrow> Inr True
      | Inr False \<Rightarrow> any_condition sample rest)"

definition startswith :: "string \<Rightarrow> string \<Rightarrow> bool" where
  "startswith s p = (take (length p) s = p)"

text \<open>The outer loop over the table, with the tuple \<open>comorbidities\<close> as accumulator.\<close>

fun comorbidities_loop :: "sample \<Rightarrow> comorbidity_mapping \<Rightarrow> string list \<Rightarrow> exn + string list" where
  "comorbidities_loop sample [] comorbidities = Inr comorbidities"
| "comorbidities_loop sample ((diagnosis, logic) # rest) comorbidities =
     (if startswith diagnosis ''V. a. '' \<and> drop 6 diagnosis \<in> set comorbidities
      then comorbidities_loop sample rest comorbidities
      else (case any_condition sample logic of
              Inl e \<Rightarrow> Inl e
            | Inr True \<Rightarrow> comorbidities_loop sample rest (comorbidities @ [diagnosis])
            | Inr False \<Rightarrow> comorbidities_loop sample rest comorbidities))"

definition get_comorbidities :: "sample \<Rightarrow> comorbidity_mapping \<Rightarrow> exn + string list" where
  "get_comorbidities sample_data comorbidity_mapping =
     comorbidities_loop sample_data comorbidity_mapping []"

subsection \<open>multimorbidity\_to\_dict\<close>

text \<open>
  The result dictionary maps a key to a label or to \<open>None\<close>, the marker of an unfilled
  slot. \<open>range(max_number)\<close> is empty when \<open>max_number\<close> is not positive.
\<close>

definition multimorbidity_key :: "nat \<Rightarrow> string" where
  "multimorbidity_key n = ''multimorbidity_'' @ str_nat n"

fun multimorbidity_loop ::
  "string list \<Rightarrow> nat list \<Rightarrow> (string \<rightharpoonup> string option) \<Rightarrow> (string \<rightharpoonup> string option)" where
  "multimorbidity_loop comorbidities [] comorbidity_dict = comorbidity_dict"
| "multimorbidity_loop comorbidities (i # rest) comorbidity_dict =
     multimorbidity_loop comorbidities rest
       (if i < length comorbidities
        then comorbidity_dict(multimorbidity_key (i + 1) \<mapsto> Some (comorbidities ! i))
        else comorbidity_dict(multimorbidity_key (i + 1) \<mapsto> None))"

definition multimorbidity_to_dict :: "string list \<Rightarrow> int \<Rightarrow> (string \<rightharpoonup> string option)" where
  "multimorbidity_to_dict comorbidities max_number =
     multimorbidity_loop comorbidities [0 ..< nat max_number] Map.empty"

section \<open>forta.py\<close>

text \<open>
  The reference table \<open>FORTA_database.csv\<close> and the rule table \<open>FORTA_MAPPING.json\<close>
  are not part of the sources and are parameters. A row of the reference table has the
  three columns the code selects, all strings. An entry of the rule table is a string
  (an unconditional indication) or a dictionary from condition keys to indications.
\<close>

record forta_row =
  Wirkstoff :: string
  Indikation :: string
  FORTA :: string

datatype forta_entry = Unconditional string | Conditional "(string \<times> string) list"

type_synonym forta_mapping = "string \<rightharpoonup> forta_entry list"

subsection \<open>get\_medication\<close>

text \<open>
  \<open>sample[f'medication_preop_{i}']\<close> is a subscript: an absent key raises \<open>KeyError\<close>.
  The value is kept when it is truthy and not in \<open>NULL\<close>; the test for \<open>NULL\<close> is
  only reached for a truthy value.
\<close>

definition medication_key :: "nat \<Rightarrow> string" where
  "medication_key i = ''medication_preop_'' @ str_nat i"

fun medication_loop :: "sample \<Rightarrow> nat list \<Rightarrow> pyval list \<Rightarrow> exn + pyval list" where
  "medication_loop sample [] medication = Inr medication"
| "medication_loop sample (i # rest) medication =
     (case sample (medication_key i) of
        None \<Rightarrow> Inl KeyError
      | Some v \<Rightarrow>
          if \<not> truthy v then medication_loop sample rest medication
          else (case in_NULL v of
                  Inl e \<Rightarrow> Inl e
                | Inr True \<Rightarrow> medication_loop sample rest medication
                | Inr False \<Rightarrow> medication_loop sample rest (medication @ [v])))"

definition get_medication :: "sample \<Rightarrow> exn + pyval list" where
  "get_medication sample = medication_loop sample [1 ..< 21] []"

subsection \<open>forta\_condition\_check\<close>

text \<open>Only the predicate selected by \<open>condition_key\<close> is evaluated; an unknown key
  selects the constant \<open>True\<close>. The two labels with an umlaut are written with the code
  point of the letter.\<close>

definition Schlafstoerung :: string where
  "Schlafstoerung = ''Schlafst'' @ [CHR 0xF6] @ ''rung''"

definition forta_condition_check :: "string \<Rightarrow> sample \<Rightarrow> string list \<Rightarrow> exn + bool" where
  "forta_condition_check condition_key s c =
     (if condition_key = ''has_depression'' then Inr (''Depression'' \<in> set c)
      else if condition_key = ''has_insomnia'' then Inr (Schlafstoerung \<in> set c)
      else if condition_key = ''is_woman'' then Inr (py_eq (dict_get s ''sex'' (PInt 1)) (PInt 0))
      else if condition_key = ''has_renal_failure'' then py_lt (dict_get s ''lab_preop_egfr'' (PInt 120)) 30
      else if condition_key = ''has_no_renal_failure'' then py_ge (dict_get s ''lab_preop_egfr'' (PInt 120)) 30
      else if condition_key = ''is_old'' then py_ge (dict_get s ''adm_age'' (PInt 70)) 85
      else if condition_key = ''is_not_old'' then py_lt (dict_get s ''adm_age'' (PInt 70)) 85
      else if condition_key = ''no_hypertension'' then Inr (''Arterielle Hypertonie'' \<notin> set c)
      else if condition_key = ''has_pneumonia'' then Inr (''Pneumonie'' \<in> set c)
      else Inr True)"

subsection \<open>get\_forta\_indications\<close>

fun conditional_loop ::
  "sample \<Rightarrow> string list \<Rightarrow> (string \<times> string) list \<Rightarrow> string set \<Rightarrow> exn + string set" where
  "conditional_loop sample comorbidities [] forta_indications = Inr forta_indications"
| "conditional_loop sample comorbidities ((condition_key, indication) # rest) forta_indications =
     (case forta_condition_check condition_key sample comorbidities of
        Inl e \<Rightarrow> Inl e
      | Inr True \<Rightarrow> conditional_loop sample comorbidities rest (insert indication forta_indications)
      | Inr False \<Rightarrow> conditional_loop sample comorbidities rest forta_indications)"

fun entry_loop ::
  "sample \<Rightarrow> string list \<Rightarrow> forta_entry list \<Rightarrow> string set \<Rightarrow> exn + string set" where
  "entry_loop sample comorbidities [] forta_indications = Inr forta_indications"
| "entry_loop sample comorbidities (Unconditional entry # rest) forta_indications =
     entry_loop sample comorbidities rest (insert entry forta_indications)"
| "entry_loop sample comorbidities (Conditional entry # rest) forta_indications =
     (case conditional_loop sample comorbidities entry forta_indications of
        Inl e \<Rightarrow> Inl e
      | Inr forta_indications' \<Rightarrow> entry_loop sample comorbidities rest forta_indications')"

fun indications_loop ::
  "sample \<Rightarrow> string list \<Rightarrow> forta_mapping \<Rightarrow> string list \<Rightarrow> string set \<Rightarrow> exn + string set" where
  "indications_loop sample comorbidities forta_mapping [] forta_indications = Inr forta_indications"
| "indications_loop sample comorbidities forta_mapping (diagnosis # rest) forta_indications =
     (let diagnosis' = (if startswith diagnosis ''V. a. '' then drop 6 diagnosis else diagnosis)
      in case forta_mapping diagnosis' of
           None \<Rightarrow> indications_loop sample comorbidities forta_mapping rest forta_indications
         | Some entries \<Rightarrow>
             (case entry_loop sample comorbidities entries forta_indications of
                Inl e \<Rightarrow> Inl e
              | Inr forta_indications' \<Rightarrow>
                  indications_loop sample comorbidities forta_mapping rest forta_indications'))"

definition get_forta_indications ::
  "sample \<Rightarrow> string list \<Rightarrow> forta_mapping \<Rightarrow> exn + string set" where
  "get_forta_indications sample comorbidities forta_mapping =
     indications_loop sample comorbidities forta_mapping comorbidities {}"

subsection \<open>make\_forta\_df\<close>

text \<open>
  \<open>isin\<close> keeps a row whose substance equals an element of \<open>medication\<close> and whose
  indication is in the set. \<open>sort_values\<close> on two columns is a stable lexicographic
  sort: by \<open>Wirkstoff\<close> ascending, then by \<open>FORTA\<close> descending, rows equal on both
  staying in table order. Strings are ordered by code point.
\<close>

definition sort_descending :: "('a \<Rightarrow> 'k::linorder) \<Rightarrow> 'a list \<Rightarrow> 'a list" where
  "sort_descending f xs = rev (sort_key f (rev xs))"

definition make_forta_df :: "pyval list \<Rightarrow> string set \<Rightarrow> forta_row list \<Rightarrow> forta_row list" where
  "make_forta_df medication forta_indications forta_database =
     (let forta_exact =
            filter (\<lambda>r. PStr (Wirkstoff r) \<in> set medication \<and> Indikation r \<in> forta_indications)
              forta_database
      in sort_key Wirkstoff (sort_descending FORTA forta_exact))"

subsection \<open>add\_remaining\_med\<close>

definition placeholder_indication :: string where
  "placeholder_indication = ''Indikation ggf. pr'' @ [CHR 0xFC] @ ''fen''"

definition add_remaining_med :: "forta_row list \<Rightarrow> string list \<Rightarrow> forta_row list" where
  "add_remaining_med forta_exact medication =
     (let missing_medication =
            remdups (filter (\<lambda>m. m \<notin> set (map Wirkstoff forta_exact)) medication);
          missing_medication_string = join '', '' (sort missing_medication);
          new_row = \<lparr>Wirkstoff = missing_medication_string,
                     Indikation = placeholder_indication,
                     FORTA = ''-''\<rparr>
      in forta_exact @ [new_row])"

subsection \<open>get\_forta\_list\<close>

text \<open>
  \<open>sample['medication']\<close> is a subscript. \<open>add_remaining_med\<close> builds a set from the
  value, sorts it and joins it: the value has to be iterable, and each element a
  string (an element of another kind is unhashable, or does not compare with a string,
  or is refused by \<open>join\<close>: \<open>TypeError\<close> each time). Iterating a string gives its
  characters.
\<close>

definition medication_names :: "pyval \<Rightarrow> exn + string list" where
  "medication_names v =
     (case v of
        PList xs \<Rightarrow>
          if list_all (\<lambda>x. case x of PStr s \<Rightarrow> True | _ \<Rightarrow> False) xs
          then Inr (map (\<lambda>x. case x of PStr s \<Rightarrow> s | _ \<Rightarrow> []) xs)
          else Inl TypeError
      | PStr s \<Rightarrow> Inr (map (\<lambda>c. [c]) s)
      | _ \<Rightarrow> Inl TypeError)"

definition get_forta_list ::
  "sample \<Rightarrow> comorbidity_mapping \<Rightarrow> forta_mapping \<Rightarrow> forta_row list \<Rightarrow> exn + forta_row list" where
  "get_forta_list sample comorbidity_mapping forta_mapping forta_database =
     (case get_comorbidities sample comorbidity_mapping of
        Inl e \<Rightarrow> Inl e
      | Inr comorbidities \<Rightarrow>
     (case get_forta_indications sample comorbidities forta_mapping of
        Inl e \<Rightarrow> Inl e
      | Inr forta_indications \<Rightarrow>
     (case get_medication sample of
        Inl e \<Rightarrow> Inl e
      | Inr medication \<Rightarrow>
     (let forta_exact = make_forta_df medication forta_indications forta_database
      in case sample ''medication'' of
           None \<Rightarrow> Inl KeyError
         | Some v \<Rightarrow>
             (case medication_names v of
                Inl e \<Rightarrow> Inl e
              | Inr names \<Rightarrow> Inr (add_remaining_med forta_exact names))))))"

section \<open>Predicates of the statements\<close>


text \<open>The invariant of the loop: wherever a label with the prefix stands in the tuple,
  the label without the prefix does not stand before it.\<close>

definition suspected_after_confirmed_free :: "string list \<Rightarrow> bool" where
  "suspected_after_confirmed_free acc =
     (\<forall>j < length acc. startswith (acc ! j) ''V. a. '' \<longrightarrow> drop 6 (acc ! j) \<notin> set (take j acc))"




section \<open>The fixed-width encoder\<close>

text \<open>Decimal numerals determine their number, so the keys of the slots are distinct.\<close>

lemma str_nat_nonempty: "str_nat n \<noteq> []"
  by (subst str_nat.simps) simp

lemma digit_char_inj: "a < 10 \<Longrightarrow> b < 10 \<Longrightarrow> digit_char a = digit_char b \<Longrightarrow> a = b"
proof -
  assume a: "a < 10" and b: "b < 10" and e: "digit_char a = digit_char b"
  from e have "(of_char (digit_char a) :: nat) = of_char (digit_char b)" by simp
  with a b show "a = b" by (simp add: digit_char_def)
qed

lemma str_nat_inj: "str_nat m = str_nat n \<Longrightarrow> m = n"
proof (induction m arbitrary: n rule: str_nat.induct)
  case (1 m)
  show ?case
  proof (cases "m < 10")
    case True
    then have sm: "str_nat m = [digit_char m]" by (subst str_nat.simps) simp
    show ?thesis
    proof (cases "n < 10")
      case True
      then have "str_nat n = [digit_char n]" by (subst str_nat.simps) simp
      with sm "1.prems" \<open>m < 10\<close> True show ?thesis by (auto dest: digit_char_inj)
    next
      case False
      then have "str_nat n = str_nat (n div 10) @ [digit_char (n mod 10)]"
        by (subst str_nat.simps) simp
      with sm "1.prems" str_nat_nonempty [of "n div 10"] show ?thesis by (cases "str_nat (n div 10)") auto
    qed
  next
    case False
    then have sm: "str_nat m = str_nat (m div 10) @ [digit_char (m mod 10)]"
      by (subst str_nat.simps) simp
    show ?thesis
    proof (cases "n < 10")
      case True
      then have "str_nat n = [digit_char n]" by (subst str_nat.simps) simp
      with sm "1.prems" str_nat_nonempty [of "m div 10"] show ?thesis by (cases "str_nat (m div 10)") auto
    next
      case nge: False
      then have sn: "str_nat n = str_nat (n div 10) @ [digit_char (n mod 10)]"
        by (subst str_nat.simps) simp
      from sm sn "1.prems" have e1: "str_nat (m div 10) = str_nat (n div 10)"
        and e2: "digit_char (m mod 10) = digit_char (n mod 10)" by auto
      from "1.IH" [OF False e1] have d: "m div 10 = n div 10" .
      from e2 have r: "m mod 10 = n mod 10" by (auto intro: digit_char_inj)
      have "m = 10 * (m div 10) + m mod 10" by simp
      also have "\<dots> = 10 * (n div 10) + n mod 10" using d r by simp
      also have "\<dots> = n" by simp
      finally show ?thesis .
    qed
  qed
qed

lemma multimorbidity_key_inj: "multimorbidity_key m = multimorbidity_key n \<Longrightarrow> m = n"
  by (simp add: multimorbidity_key_def str_nat_inj)

lemma multimorbidity_loop_other:
  "k \<notin> (\<lambda>i. multimorbidity_key (i + 1)) ` set idxs \<Longrightarrow> multimorbidity_loop c idxs d k = d k"
  by (induction idxs arbitrary: d) auto

lemma multimorbidity_loop_slot:
  "distinct idxs \<Longrightarrow> i \<in> set idxs \<Longrightarrow>
   multimorbidity_loop c idxs d (multimorbidity_key (i + 1)) =
     Some (if i < length c then Some (c ! i) else None)"
proof (induction idxs arbitrary: d)
  case Nil
  then show ?case by simp
next
  case (Cons j idxs)
  show ?case
  proof (cases "i = j")
    case True
    with Cons.prems have "i \<notin> set idxs" by simp
    then have "multimorbidity_key (i + 1) \<notin> (\<lambda>i. multimorbidity_key (i + 1)) ` set idxs"
      by (auto dest: multimorbidity_key_inj)
    then show ?thesis using True by (simp add: multimorbidity_loop_other)
  next
    case False
    with Cons show ?thesis by simp
  qed
qed

lemma multimorbidity_loop_dom:
  "dom (multimorbidity_loop c idxs d) = dom d \<union> (\<lambda>i. multimorbidity_key (i + 1)) ` set idxs"
  by (induction idxs arbitrary: d) auto

text \<open>
  Claim C8. For every comorbidity sequence and every \<open>max_number\<close>, the dictionary
  returned by \<open>multimorbidity_to_dict\<close> has exactly the keys numbered \<open>1\<close> to
  \<open>max_number\<close> (none when \<open>max_number\<close> is not positive), so \<open>max_number\<close> keys;
  slot \<open>i\<close> holds the comorbidity at index \<open>i - 1\<close> when \<open>i\<close> is at most the length of
  the sequence and \<open>None\<close> otherwise; and every label in the dictionary is among the
  first \<open>max_number\<close> comorbidities, the later ones being dropped.
\<close>

theorem multimorbidity_to_dict_slots:
  "dom (multimorbidity_to_dict comorbidities max_number) = multimorbidity_key ` {1 .. nat max_number}
   \<and> card (dom (multimorbidity_to_dict comorbidities max_number)) = nat max_number
   \<and> (\<forall>i \<in> {1 .. nat max_number}.
         multimorbidity_to_dict comorbidities max_number (multimorbidity_key i) =
           Some (if i \<le> length comorbidities then Some (comorbidities ! (i - 1)) else None))
   \<and> (\<forall>k label. multimorbidity_to_dict comorbidities max_number k = Some (Some label) \<longrightarrow>
         label \<in> set (take (nat max_number) comorbidities))"
proof -
  let ?n = "nat max_number"
  let ?d = "multimorbidity_to_dict comorbidities max_number"
  have img: "(\<lambda>i. multimorbidity_key (i + 1)) ` {0 ..< ?n} = multimorbidity_key ` {1 .. ?n}"
  proof (rule set_eqI)
    fix k
    show "k \<in> (\<lambda>i. multimorbidity_key (i + 1)) ` {0 ..< ?n} \<longleftrightarrow> k \<in> multimorbidity_key ` {1 .. ?n}"
    proof
      assume "k \<in> (\<lambda>i. multimorbidity_key (i + 1)) ` {0 ..< ?n}"
      then obtain i where "i < ?n" and k: "k = multimorbidity_key (i + 1)" by auto
      then have "i + 1 \<in> {1 .. ?n}" by auto
      with k show "k \<in> multimorbidity_key ` {1 .. ?n}" by (rule_tac image_eqI)
    next
      assume "k \<in> multimorbidity_key ` {1 .. ?n}"
      then obtain j where j: "j \<in> {1 .. ?n}" and k: "k = multimorbidity_key j" by auto
      from j have "j - 1 \<in> {0 ..< ?n}" and "j = (j - 1) + 1" by auto
      with k show "k \<in> (\<lambda>i. multimorbidity_key (i + 1)) ` {0 ..< ?n}"
        by (metis (mono_tags, lifting) image_eqI)
    qed
  qed
  have "dom ?d = (\<lambda>i. multimorbidity_key (i + 1)) ` set [0 ..< ?n]"
    unfolding multimorbidity_to_dict_def multimorbidity_loop_dom by simp
  also have "\<dots> = (\<lambda>i. multimorbidity_key (i + 1)) ` {0 ..< ?n}"
    by (simp only: set_upt)
  finally have dom: "dom ?d = multimorbidity_key ` {1 .. ?n}"
    by (simp only: img)
  have "inj_on multimorbidity_key {1 .. ?n}"
    by (rule inj_onI) (rule multimorbidity_key_inj)
  then have card: "card (dom ?d) = ?n"
    by (simp add: dom card_image)
  have slot: "?d (multimorbidity_key i) =
      Some (if i \<le> length comorbidities then Some (comorbidities ! (i - 1)) else None)"
    if "i \<in> {1 .. ?n}" for i
  proof -
    from that obtain j where j: "i = j + 1" "j \<in> set [0 ..< ?n]"
      by (cases i) auto
    have "i \<le> length comorbidities \<longleftrightarrow> j < length comorbidities" using j by auto
    with multimorbidity_loop_slot [of "[0 ..< ?n]" j comorbidities Map.empty] j
    show ?thesis by (simp add: multimorbidity_to_dict_def)
  qed
  have dropped: "label \<in> set (take ?n comorbidities)" if "?d k = Some (Some label)" for k label
  proof -
    from that have "k \<in> dom ?d" by auto
    with dom obtain i where i: "i \<in> {1 .. ?n}" "k = multimorbidity_key i" by auto
    with slot [OF i(1)] that have le: "i \<le> length comorbidities"
      and lab: "label = comorbidities ! (i - 1)" by (auto split: if_splits)
    from i le have "i - 1 < length (take ?n comorbidities)" by auto
    moreover from i have "take ?n comorbidities ! (i - 1) = comorbidities ! (i - 1)" by auto
    ultimately show ?thesis unfolding lab by (metis nth_mem)
  qed
  from dom card slot dropped show ?thesis by blast
qed

theorem multimorbidity_to_dict_slots_witness:
  "multimorbidity_to_dict [''a'', ''b'', ''c''] 2 (multimorbidity_key 1) = Some (Some ''a'')
   \<and> multimorbidity_to_dict [''a'', ''b'', ''c''] 2 (multimorbidity_key 2) = Some (Some ''b'')
   \<and> multimorbidity_to_dict [''a''] 2 (multimorbidity_key 2) = Some None
   \<and> card (dom (multimorbidity_to_dict [''a'', ''b'', ''c''] 2)) = 2
   \<and> multimorbidity_to_dict [''a'', ''b'', ''c''] 2 (multimorbidity_key 3) = None"
proof -
  note t = multimorbidity_to_dict_slots [of "[''a'', ''b'', ''c'']" 2]
  note u = multimorbidity_to_dict_slots [of "[''a'']" 2]
  have "multimorbidity_key 3 \<notin> multimorbidity_key ` {1 .. nat 2}"
    by (auto dest: multimorbidity_key_inj)
  with t have "multimorbidity_key 3 \<notin> dom (multimorbidity_to_dict [''a'', ''b'', ''c''] 2)" by blast
  with t u show ?thesis by (auto simp: domIff)
qed

section \<open>Condition keys\<close>

text \<open>
  Claim C6. When the age field \<open>adm_age\<close> is absent, \<open>is_old\<close> is false and \<open>is_not_old\<close>
  is true; when the renal-function field \<open>lab_preop_egfr\<close> is absent,
  \<open>has_renal_failure\<close> is false and \<open>has_no_renal_failure\<close> is true; and every condition
  key outside the nine named ones is true, for every record and comorbidity list.
\<close>

theorem forta_condition_check_defaults:
  "(s ''adm_age'' = None \<longrightarrow>
      forta_condition_check ''is_old'' s c = Inr False
      \<and> forta_condition_check ''is_not_old'' s c = Inr True)
   \<and> (s ''lab_preop_egfr'' = None \<longrightarrow>
      forta_condition_check ''has_renal_failure'' s c = Inr False
      \<and> forta_condition_check ''has_no_renal_failure'' s c = Inr True)
   \<and> (condition_key \<notin> {''has_depression'', ''has_insomnia'', ''is_woman'', ''has_renal_failure'',
          ''has_no_renal_failure'', ''is_old'', ''is_not_old'', ''no_hypertension'',
          ''has_pneumonia''} \<longrightarrow>
      forta_condition_check condition_key s c = Inr True)"
  by (simp add: forta_condition_check_def dict_get_def py_lt_def py_ge_def)

theorem forta_condition_check_defaults_witness:
  "forta_condition_check ''is_old'' Map.empty [''Depression''] = Inr False
   \<and> forta_condition_check ''is_not_old'' Map.empty [''Depression''] = Inr True
   \<and> forta_condition_check ''has_renal_failure'' Map.empty [''Depression''] = Inr False
   \<and> forta_condition_check ''has_no_renal_failure'' Map.empty [''Depression''] = Inr True
   \<and> forta_condition_check ''is_tall'' Map.empty [''Depression''] = Inr True"
  using forta_condition_check_defaults [of Map.empty "[''Depression'']" "''is_tall''"]
  by simp

section \<open>The summary row\<close>

lemma missing_medication_sorted:
  "sort (remdups (filter (\<lambda>m. m \<notin> set (map Wirkstoff forta_exact)) medication)) =
     sorted_list_of_set (set medication - Wirkstoff ` set forta_exact)"
proof -
  have "set (filter (\<lambda>m. m \<notin> set (map Wirkstoff forta_exact)) medication) =
      set medication - Wirkstoff ` set forta_exact"
    by auto
  then show ?thesis
    by (simp only: sorted_list_of_set_sort_remdups [symmetric])
qed

lemma add_remaining_med_append:
  "add_remaining_med forta_exact medication =
     forta_exact @
     [\<lparr>Wirkstoff = join '', '' (sorted_list_of_set (set medication - Wirkstoff ` set forta_exact)),
       Indikation = placeholder_indication, FORTA = ''-''\<rparr>]"
  unfolding add_remaining_med_def Let_def missing_medication_sorted ..

lemma mset_sort_descending: "mset (sort_descending f xs) = mset xs"
  by (simp add: sort_descending_def)

lemma mset_make_forta_df:
  "mset (make_forta_df medication forta_indications forta_database) =
     mset (filter (\<lambda>r. PStr (Wirkstoff r) \<in> set medication \<and> Indikation r \<in> forta_indications)
            forta_database)"
  by (simp add: make_forta_df_def mset_sort_descending)

lemma set_make_forta_df:
  "set (make_forta_df medication forta_indications forta_database) =
     {r \<in> set forta_database. PStr (Wirkstoff r) \<in> set medication \<and> Indikation r \<in> forta_indications}"
proof -
  have "set (make_forta_df medication forta_indications forta_database) =
      set_mset (mset (make_forta_df medication forta_indications forta_database))"
    by simp
  also have "\<dots> = {r \<in> set forta_database.
      PStr (Wirkstoff r) \<in> set medication \<and> Indikation r \<in> forta_indications}"
    unfolding mset_make_forta_df by simp
  finally show ?thesis .
qed

text \<open>
  Claim C5. For every medication list, indication set and reference table, the result of
  \<open>add_remaining_med\<close> on the matched rows of \<open>make_forta_df\<close> is the matched rows (the
  rows of the table whose substance is in the list and whose indication is in the set)
  followed by one summary row. Its substance field is the medication names that no
  matched row carries, each once, sorted and joined with a comma and a blank; it is the
  empty string when there is none, so also for the empty medication list. Its indication
  field is the fixed label and its rating field the fixed symbol \<open>-\<close>.
\<close>

theorem add_remaining_med_summary:
  "add_remaining_med (make_forta_df (map PStr medication) forta_indications forta_database) medication =
     make_forta_df (map PStr medication) forta_indications forta_database @
     [\<lparr>Wirkstoff = join '', '' (sorted_list_of_set
          (set medication -
           Wirkstoff ` set (make_forta_df (map PStr medication) forta_indications forta_database))),
       Indikation = ''Indikation ggf. pr'' @ [CHR 0xFC] @ ''fen'', FORTA = ''-''\<rparr>]
   \<and> mset (make_forta_df (map PStr medication) forta_indications forta_database) =
       mset (filter (\<lambda>r. Wirkstoff r \<in> set medication \<and> Indikation r \<in> forta_indications)
              forta_database)
   \<and> (set medication \<subseteq>
         Wirkstoff ` set (make_forta_df (map PStr medication) forta_indications forta_database) \<longrightarrow>
       Wirkstoff (last (add_remaining_med
         (make_forta_df (map PStr medication) forta_indications forta_database) medication)) = [])"
proof -
  let ?matched = "make_forta_df (map PStr medication) forta_indications forta_database"
  have summary_empty: "Wirkstoff (last (add_remaining_med ?matched medication)) = []"
    if sub: "set medication \<subseteq> Wirkstoff ` set ?matched"
  proof -
    from sub have e: "set medication - Wirkstoff ` set ?matched = {}" by blast
    show ?thesis unfolding add_remaining_med_append e by simp
  qed
  have "filter (\<lambda>r. PStr (Wirkstoff r) \<in> set (map PStr medication) \<and> Indikation r \<in> forta_indications)
        forta_database
      = filter (\<lambda>r. Wirkstoff r \<in> set medication \<and> Indikation r \<in> forta_indications)
        forta_database"
    by (rule filter_cong) auto
  then have matched: "mset ?matched =
      mset (filter (\<lambda>r. Wirkstoff r \<in> set medication \<and> Indikation r \<in> forta_indications)
             forta_database)"
    unfolding mset_make_forta_df by (rule arg_cong)
  show ?thesis
  proof (intro conjI impI)
    show "add_remaining_med ?matched medication =
      ?matched @
      [\<lparr>Wirkstoff = join '', '' (sorted_list_of_set (set medication - Wirkstoff ` set ?matched)),
        Indikation = ''Indikation ggf. pr'' @ [CHR 0xFC] @ ''fen'', FORTA = ''-''\<rparr>]"
      unfolding add_remaining_med_append placeholder_indication_def ..
    show "mset ?matched =
      mset (filter (\<lambda>r. Wirkstoff r \<in> set medication \<and> Indikation r \<in> forta_indications)
             forta_database)"
      by (rule matched)
    show "Wirkstoff (last (add_remaining_med ?matched medication)) = []"
      if "set medication \<subseteq> Wirkstoff ` set ?matched"
      using that by (rule summary_empty)
  qed
qed

theorem add_remaining_med_summary_witness:
  "add_remaining_med
     (make_forta_df (map PStr [''A'', ''A''] ) {''I''}
        [\<lparr>Wirkstoff = ''A'', Indikation = ''I'', FORTA = ''B''\<rparr>,
         \<lparr>Wirkstoff = ''C'', Indikation = ''I'', FORTA = ''A''\<rparr>])
     [''A'', ''A''] =
   [\<lparr>Wirkstoff = ''A'', Indikation = ''I'', FORTA = ''B''\<rparr>,
    \<lparr>Wirkstoff = [], Indikation = ''Indikation ggf. pr'' @ [CHR 0xFC] @ ''fen'', FORTA = ''-''\<rparr>]"
proof -
  let ?db = "[\<lparr>Wirkstoff = ''A'', Indikation = ''I'', FORTA = ''B''\<rparr>,
         \<lparr>Wirkstoff = ''C'', Indikation = ''I'', FORTA = ''A''\<rparr>]"
  have m: "make_forta_df (map PStr [''A'', ''A'']) {''I''} ?db =
      [\<lparr>Wirkstoff = ''A'', Indikation = ''I'', FORTA = ''B''\<rparr>]"
    by (simp add: make_forta_df_def sort_descending_def)
  have sub: "set [''A'', ''A''] \<subseteq> Wirkstoff ` set (make_forta_df (map PStr [''A'', ''A'']) {''I''} ?db)"
    unfolding m by simp
  from add_remaining_med_summary [of "[''A'', ''A'']" "{''I''}" ?db] sub
  have "Wirkstoff (last (add_remaining_med (make_forta_df (map PStr [''A'', ''A'']) {''I''} ?db)
          [''A'', ''A''])) = []"
    and "add_remaining_med (make_forta_df (map PStr [''A'', ''A'']) {''I''} ?db) [''A'', ''A''] =
      make_forta_df (map PStr [''A'', ''A'']) {''I''} ?db @
      [\<lparr>Wirkstoff = join '', '' (sorted_list_of_set
          (set [''A'', ''A''] - Wirkstoff ` set (make_forta_df (map PStr [''A'', ''A'']) {''I''} ?db))),
        Indikation = ''Indikation ggf. pr'' @ [CHR 0xFC] @ ''fen'', FORTA = ''-''\<rparr>]"
    by blast+
  then show ?thesis unfolding m by simp
qed

section \<open>The comorbidity resolver\<close>

subsection \<open>The loop over the rule table\<close>

lemma comorbidities_loop_append:
  "comorbidities_loop sample (t1 @ t2) acc =
     (case comorbidities_loop sample t1 acc of
        Inl e \<Rightarrow> Inl e
      | Inr acc' \<Rightarrow> comorbidities_loop sample t2 acc')"
  by (induction t1 arbitrary: acc) (auto split: sum.splits bool.splits)

lemma comorbidities_loop_prefix:
  "comorbidities_loop sample t acc = Inr res \<Longrightarrow> \<exists>ext. res = acc @ ext \<and> set ext \<subseteq> fst ` set t"
proof (induction t arbitrary: acc)
  case Nil
  then show ?case by simp
next
  case (Cons entry t)
  obtain diagnosis logic where entry: "entry = (diagnosis, logic)" by (cases entry)
  show ?case
  proof (cases "comorbidities_loop sample t acc = Inr res")
    case True
    from Cons.IH [OF True] show ?thesis by auto
  next
    case False
    with Cons.prems entry have "comorbidities_loop sample t (acc @ [diagnosis]) = Inr res"
      by (auto split: if_splits sum.splits bool.splits)
    from Cons.IH [OF this] obtain ext where "res = (acc @ [diagnosis]) @ ext" "set ext \<subseteq> fst ` set t"
      by blast
    then have "res = acc @ (diagnosis # ext)" "set (diagnosis # ext) \<subseteq> fst ` set (entry # t)"
      using entry by auto
    then show ?thesis by blast
  qed
qed

lemma comorbidities_loop_subset:
  "comorbidities_loop sample t acc = Inr res \<Longrightarrow> set acc \<subseteq> set res \<and> set res \<subseteq> set acc \<union> fst ` set t"
  by (drule comorbidities_loop_prefix) auto

text \<open>What one entry of the table does to the accumulated tuple.\<close>

lemma comorbidities_loop_entry:
  assumes "comorbidities_loop sample (pre @ (diagnosis, logic) # post) acc = Inr res"
  shows "\<exists>acc'. comorbidities_loop sample pre acc = Inr acc' \<and>
           (if startswith diagnosis ''V. a. '' \<and> drop 6 diagnosis \<in> set acc'
            then comorbidities_loop sample post acc' = Inr res
            else (\<exists>b. any_condition sample logic = Inr b \<and>
                   comorbidities_loop sample post (if b then acc' @ [diagnosis] else acc') = Inr res))"
proof -
  from assms obtain acc' where pre: "comorbidities_loop sample pre acc = Inr acc'"
    and rest: "comorbidities_loop sample ((diagnosis, logic) # post) acc' = Inr res"
    by (auto simp: comorbidities_loop_append split: sum.splits)
  show ?thesis
  proof (cases "startswith diagnosis ''V. a. '' \<and> drop 6 diagnosis \<in> set acc'")
    case True
    with pre rest show ?thesis by simp
  next
    case False
    with rest obtain b where "any_condition sample logic = Inr b"
      and "comorbidities_loop sample post (if b then acc' @ [diagnosis] else acc') = Inr res"
      by (cases "any_condition sample logic") (auto split: bool.splits)
    with pre False show ?thesis by auto
  qed
qed

subsection \<open>Suspected and confirmed labels\<close>

lemma suspected_after_confirmed_free_snoc:
  assumes "suspected_after_confirmed_free acc"
    and "\<not> (startswith d ''V. a. '' \<and> drop 6 d \<in> set acc)"
  shows "suspected_after_confirmed_free (acc @ [d])"
  unfolding suspected_after_confirmed_free_def
proof (intro allI impI)
  fix j
  assume j: "j < length (acc @ [d])" and s: "startswith ((acc @ [d]) ! j) ''V. a. ''"
  show "drop 6 ((acc @ [d]) ! j) \<notin> set (take j (acc @ [d]))"
  proof (cases "j < length acc")
    case True
    with assms(1) s show ?thesis
      by (simp add: suspected_after_confirmed_free_def nth_append)
  next
    case False
    with j have "j = length acc" by simp
    with assms(2) s show ?thesis by simp
  qed
qed

lemma comorbidities_loop_invariant:
  "comorbidities_loop sample t acc = Inr res \<Longrightarrow> suspected_after_confirmed_free acc \<Longrightarrow>
   suspected_after_confirmed_free res"
proof (induction t arbitrary: acc)
  case Nil
  then show ?case by simp
next
  case (Cons entry t)
  obtain diagnosis logic where entry: "entry = (diagnosis, logic)" by (cases entry)
  show ?case
  proof (cases "startswith diagnosis ''V. a. '' \<and> drop 6 diagnosis \<in> set acc")
    case True
    with Cons entry show ?thesis by simp
  next
    case False
    from False Cons.prems(2) have "suspected_after_confirmed_free (acc @ [diagnosis])"
      by (rule_tac suspected_after_confirmed_free_snoc)
    with False Cons entry show ?thesis
      by (auto split: sum.splits bool.splits)
  qed
qed

lemma startswith_append: "startswith (p @ s) p"
  by (simp add: startswith_def)

lemma confirmed_before_suspected:
  assumes loop: "comorbidities_loop sample (pre @ (d, logic) # mid @ (s, logic') # post) [] = Inr res"
    and dist: "distinct (map fst (pre @ (d, logic) # mid @ (s, logic') # post))"
    and s: "startswith s ''V. a. ''" "drop 6 s = d"
  shows "\<not> (d \<in> set res \<and> s \<in> set res)"
proof
  let ?pre = "pre @ (d, logic) # mid"
  assume both: "d \<in> set res \<and> s \<in> set res"
  from dist have s_pre: "s \<notin> fst ` set ?pre" and s_post: "s \<notin> fst ` set post"
    and d_post: "d \<notin> fst ` set post" and d_ne: "d \<noteq> s"
    by auto
  from loop have "comorbidities_loop sample (?pre @ (s, logic') # post) [] = Inr res"
    by simp
  from comorbidities_loop_entry [OF this] obtain acc' where
    pre: "comorbidities_loop sample ?pre [] = Inr acc'"
    and step: "if startswith s ''V. a. '' \<and> drop 6 s \<in> set acc'
            then comorbidities_loop sample post acc' = Inr res
            else (\<exists>b. any_condition sample logic' = Inr b \<and>
                   comorbidities_loop sample post (if b then acc' @ [s] else acc') = Inr res)"
    by blast
  from comorbidities_loop_subset [OF pre] s_pre have s_acc: "s \<notin> set acc'" by auto
  show False
  proof (cases "d \<in> set acc'")
    case True
    with step s have "comorbidities_loop sample post acc' = Inr res"
      by simp
    from comorbidities_loop_subset [OF this] s_acc s_post both show False by auto
  next
    case False
    from step obtain acc'' where post: "comorbidities_loop sample post acc'' = Inr res"
      and acc'': "set acc'' \<subseteq> set acc' \<union> {s}"
      by (auto split: if_splits)
    from comorbidities_loop_subset [OF post] acc'' False d_post d_ne both show False by auto
  qed
qed

text \<open>
  Claim C1, as the code has it. In the sequence returned by \<open>get_comorbidities\<close> a label
  with the prefix \<open>V. a.\<close> never stands after the label without the prefix. So when the
  confirmed label comes before the suspected one in a rule table with distinct labels,
  the two are never both in the result. (When the suspected label comes first in the
  table, both can be present.)
\<close>

theorem suspected_never_after_confirmed:
  assumes "get_comorbidities sample comorbidity_mapping = Inr res"
  shows "(\<forall>i j. i < j \<and> j < length res \<longrightarrow> res ! j \<noteq> ''V. a. '' @ res ! i)
    \<and> (\<forall>pre d logic mid logic' post.
          distinct (map fst comorbidity_mapping) \<and>
          comorbidity_mapping = pre @ (d, logic) # mid @ (''V. a. '' @ d, logic') # post \<longrightarrow>
          \<not> (d \<in> set res \<and> ''V. a. '' @ d \<in> set res))"
proof (intro conjI allI impI)
  have inv: "suspected_after_confirmed_free res"
    using assms unfolding get_comorbidities_def
    by (rule comorbidities_loop_invariant) (simp add: suspected_after_confirmed_free_def)
  fix i j
  assume ij: "i < j \<and> j < length res"
  show "res ! j \<noteq> ''V. a. '' @ res ! i"
  proof
    assume e: "res ! j = ''V. a. '' @ res ! i"
    then have "startswith (res ! j) ''V. a. ''" and d: "drop 6 (res ! j) = res ! i"
      by (simp_all add: startswith_def)
    with inv ij have "res ! i \<notin> set (take j res)"
      by (auto simp: suspected_after_confirmed_free_def)
    moreover from ij have "take j res ! i = res ! i" and "i < length (take j res)" by simp_all
    ultimately show False by (metis nth_mem)
  qed
next
  fix pre d logic mid logic' post
  assume a: "distinct (map fst comorbidity_mapping) \<and>
    comorbidity_mapping = pre @ (d, logic) # mid @ (''V. a. '' @ d, logic') # post"
  then have t: "comorbidity_mapping = pre @ (d, logic) # mid @ (''V. a. '' @ d, logic') # post"
    and dist: "distinct (map fst comorbidity_mapping)"
    by blast+
  from assms have loop: "comorbidities_loop sample comorbidity_mapping [] = Inr res"
    by (simp only: get_comorbidities_def)
  have s: "startswith (''V. a. '' @ d) ''V. a. ''" "drop 6 (''V. a. '' @ d) = d"
    by (simp_all add: startswith_def)
  show "\<not> (d \<in> set res \<and> ''V. a. '' @ d \<in> set res)"
    by (rule confirmed_before_suspected [OF loop [unfolded t] dist [unfolded t] s])
qed

theorem suspected_never_after_confirmed_witness:
  "get_comorbidities [''a'' \<mapsto> PInt 1]
     [(''X'', [[(''a'', [PInt 1])]]), (''V. a. X'', [[(''a'', [PInt 1])]])] = Inr [''X'']
   \<and> \<not> (''X'' \<in> set [''X''] \<and> ''V. a. X'' \<in> set [''X''])"
proof -
  let ?t = "[(''X'', [[(''a'', [PInt 1])]]), (''V. a. X'', [[(''a'', [PInt 1])]])]"
  have r: "get_comorbidities [''a'' \<mapsto> PInt 1] ?t = Inr [''X'']"
    by code_simp
  have "distinct (map fst ?t) \<and> ?t = [] @ (''X'', [[(''a'', [PInt 1])]]) # [] @ (''V. a. '' @ ''X'', [[(''a'', [PInt 1])]]) # []"
    by simp
  with suspected_never_after_confirmed [OF r] have "\<not> (''X'' \<in> set [''X''] \<and> ''V. a. '' @ ''X'' \<in> set [''X''])"
    by blast
  with r show ?thesis by simp
qed

text \<open>The claim as stated fails when the suspected label comes first in the table: the
  record \<open>{a: 1}\<close> meets both rules, and both labels are returned.\<close>

theorem suspected_with_confirmed_counterexample:
  "get_comorbidities [''a'' \<mapsto> PInt 1]
     [(''V. a. X'', [[(''a'', [PInt 1])]]), (''X'', [[(''a'', [PInt 1])]])] = Inr [''V. a. X'', ''X'']"
  by code_simp

subsection \<open>Conditions\<close>






subsection \<open>Each label at most once\<close>


subsection \<open>Records on which the resolver returns\<close>









section \<open>The value normalizer\<close>














section \<open>The reconciliation pipeline\<close>

subsection \<open>The exceptions of the stages\<close>













subsection \<open>Absent medication keys\<close>



subsection \<open>The extracted medication list\<close>


subsection \<open>Records on which the pipeline returns\<close>











subsection \<open>Lookup failures\<close>





subsection \<open>Two sources of the medication\<close>

lemma get_forta_list_Inr:
  assumes "get_forta_list sample cm fm db = Inr rows"
  shows "\<exists>c f m v names.
     get_comorbidities sample cm = Inr c \<and> get_forta_indications sample c fm = Inr f
     \<and> get_medication sample = Inr m \<and> sample ''medication'' = Some v
     \<and> medication_names v = Inr names
     \<and> rows = add_remaining_med (make_forta_df m f db) names"
proof -
  from assms obtain c where c: "get_comorbidities sample cm = Inr c"
    by (cases "get_comorbidities sample cm") (simp_all add: get_forta_list_def)
  from assms c obtain f where f: "get_forta_indications sample c fm = Inr f"
    by (cases "get_forta_indications sample c fm") (simp_all add: get_forta_list_def)
  from assms c f obtain m where m: "get_medication sample = Inr m"
    by (cases "get_medication sample") (simp_all add: get_forta_list_def)
  from assms c f m obtain v where v: "sample ''medication'' = Some v"
    by (cases "sample ''medication''") (simp_all add: get_forta_list_def)
  from assms c f m v obtain names where n: "medication_names v = Inr names"
    by (cases "medication_names v") (simp_all add: get_forta_list_def)
  from assms c f m v n have "rows = add_remaining_med (make_forta_df m f db) names"
    by (simp add: get_forta_list_def)
  with c f m v n show ?thesis by blast
qed

text \<open>
  Claim C9. \<open>get_forta_list\<close> selects the matched rows with the list that
  \<open>get_medication\<close> extracts from the positional fields, and builds the summary row from
  the field \<open>medication\<close>: the result is the rows of the reference table whose substance
  is in the positional list and whose indication is active, followed by the summary of
  the names of \<open>medication\<close> that are in no matched row. So a name that is only in
  \<open>medication\<close> is in no matched row, whatever the reference table says, and is in the
  summary; a name that is only in the positional fields and has no row with an active
  indication is neither in a matched row nor in the summary. On the record with
  \<open>Ibuprofen\<close> in the first positional field and \<open>['ASS']\<close> in \<open>medication\<close>, with a
  reference row for \<open>ASS\<close> under the active indication, the result is the summary row
  \<open>ASS\<close> alone.
\<close>

theorem positional_and_aggregate:
  "(get_forta_list sample cm fm db = Inr rows \<longrightarrow>
      (\<exists>c' f' m' v' names'.
         get_comorbidities sample cm = Inr c' \<and> get_forta_indications sample c' fm = Inr f'
         \<and> get_medication sample = Inr m' \<and> sample ''medication'' = Some v'
         \<and> medication_names v' = Inr names'
         \<and> rows = make_forta_df m' f' db @
              [\<lparr>Wirkstoff = join '', ''
                   (sorted_list_of_set (set names' - Wirkstoff ` set (make_forta_df m' f' db))),
                Indikation = placeholder_indication, FORTA = ''-''\<rparr>]))
   \<and> (get_comorbidities sample cm = Inr c \<and> get_forta_indications sample c fm = Inr f
        \<and> get_medication sample = Inr m \<and> sample ''medication'' = Some v
        \<and> medication_names v = Inr names \<longrightarrow>
        get_forta_list sample cm fm db =
          Inr (make_forta_df m f db @
               [\<lparr>Wirkstoff = join '', ''
                    (sorted_list_of_set (set names - Wirkstoff ` set (make_forta_df m f db))),
                 Indikation = placeholder_indication, FORTA = ''-''\<rparr>])
      \<and> set (make_forta_df m f db) =
          {r \<in> set db. PStr (Wirkstoff r) \<in> set m \<and> Indikation r \<in> f}
      \<and> (x \<in> set names \<and> PStr x \<notin> set m \<longrightarrow>
           x \<notin> Wirkstoff ` set (make_forta_df m f db)
           \<and> x \<in> set names - Wirkstoff ` set (make_forta_df m f db))
      \<and> (PStr x \<in> set m \<and> x \<notin> set names
           \<and> (\<forall>r \<in> set db. Wirkstoff r = x \<longrightarrow> Indikation r \<notin> f) \<longrightarrow>
           x \<notin> Wirkstoff ` set (make_forta_df m f db)
           \<and> x \<notin> set names - Wirkstoff ` set (make_forta_df m f db)))
   \<and> get_forta_list
        (map_of ((''medication'', PList [PStr ''ASS'']) #
           map (\<lambda>i. (medication_key i, if i = 1 then PStr ''Ibuprofen'' else PNone)) [1 ..< 21]))
        [(''D'', [[]])] [''D'' \<mapsto> [Unconditional ''Pain'']]
        [\<lparr>Wirkstoff = ''ASS'', Indikation = ''Pain'', FORTA = ''A''\<rparr>]
      = Inr [\<lparr>Wirkstoff = ''ASS'', Indikation = placeholder_indication, FORTA = ''-''\<rparr>]"
proof (intro conjI impI)
  assume "get_forta_list sample cm fm db = Inr rows"
  from get_forta_list_Inr [OF this]
  show "\<exists>c' f' m' v' names'.
         get_comorbidities sample cm = Inr c' \<and> get_forta_indications sample c' fm = Inr f'
         \<and> get_medication sample = Inr m' \<and> sample ''medication'' = Some v'
         \<and> medication_names v' = Inr names'
         \<and> rows = make_forta_df m' f' db @
              [\<lparr>Wirkstoff = join '', ''
                   (sorted_list_of_set (set names' - Wirkstoff ` set (make_forta_df m' f' db))),
                Indikation = placeholder_indication, FORTA = ''-''\<rparr>]"
    unfolding add_remaining_med_append .
next
  assume s: "get_comorbidities sample cm = Inr c \<and> get_forta_indications sample c fm = Inr f
        \<and> get_medication sample = Inr m \<and> sample ''medication'' = Some v
        \<and> medication_names v = Inr names"
  then have "get_forta_list sample cm fm db = Inr (add_remaining_med (make_forta_df m f db) names)"
    by (simp add: get_forta_list_def)
  then show "get_forta_list sample cm fm db =
          Inr (make_forta_df m f db @
               [\<lparr>Wirkstoff = join '', ''
                    (sorted_list_of_set (set names - Wirkstoff ` set (make_forta_df m f db))),
                 Indikation = placeholder_indication, FORTA = ''-''\<rparr>])"
    unfolding add_remaining_med_append .
  show "set (make_forta_df m f db) =
          {r \<in> set db. PStr (Wirkstoff r) \<in> set m \<and> Indikation r \<in> f}"
    by (rule set_make_forta_df)
  show "x \<notin> Wirkstoff ` set (make_forta_df m f db)" if "x \<in> set names \<and> PStr x \<notin> set m"
    using that unfolding set_make_forta_df by auto
  then show "x \<in> set names - Wirkstoff ` set (make_forta_df m f db)"
    if "x \<in> set names \<and> PStr x \<notin> set m"
    using that by simp
  show "x \<notin> Wirkstoff ` set (make_forta_df m f db)"
    if "PStr x \<in> set m \<and> x \<notin> set names
           \<and> (\<forall>r \<in> set db. Wirkstoff r = x \<longrightarrow> Indikation r \<notin> f)"
    using that unfolding set_make_forta_df by auto
  show "x \<notin> set names - Wirkstoff ` set (make_forta_df m f db)"
    if "PStr x \<in> set m \<and> x \<notin> set names
           \<and> (\<forall>r \<in> set db. Wirkstoff r = x \<longrightarrow> Indikation r \<notin> f)"
    using that by simp
next
  show "get_forta_list
        (map_of ((''medication'', PList [PStr ''ASS'']) #
           map (\<lambda>i. (medication_key i, if i = 1 then PStr ''Ibuprofen'' else PNone)) [1 ..< 21]))
        [(''D'', [[]])] [''D'' \<mapsto> [Unconditional ''Pain'']]
        [\<lparr>Wirkstoff = ''ASS'', Indikation = ''Pain'', FORTA = ''A''\<rparr>]
      = Inr [\<lparr>Wirkstoff = ''ASS'', Indikation = placeholder_indication, FORTA = ''-''\<rparr>]"
    by code_simp
qed

theorem positional_and_aggregate_witness:
  "get_forta_list
     (map_of ((''medication'', PList [PStr ''ASS'']) #
        map (\<lambda>i. (medication_key i, if i = 1 then PStr ''Ibuprofen'' else PNone)) [1 ..< 21]))
     [(''D'', [[]])] [''D'' \<mapsto> [Unconditional ''Pain'']]
     [\<lparr>Wirkstoff = ''ASS'', Indikation = ''Pain'', FORTA = ''A''\<rparr>,
      \<lparr>Wirkstoff = ''Ibuprofen'', Indikation = ''Fever'', FORTA = ''B''\<rparr>]
   = Inr [\<lparr>Wirkstoff = ''ASS'', Indikation = placeholder_indication, FORTA = ''-''\<rparr>]
   \<and> get_medication
       (map_of ((''medication'', PList [PStr ''ASS'']) #
          map (\<lambda>i. (medication_key i, if i = 1 then PStr ''Ibuprofen'' else PNone)) [1 ..< 21]))
     = Inr [PStr ''Ibuprofen'']
   \<and> ''ASS'' \<notin> Wirkstoff ` set (make_forta_df [PStr ''Ibuprofen''] {''Pain''}
       [\<lparr>Wirkstoff = ''ASS'', Indikation = ''Pain'', FORTA = ''A''\<rparr>,
        \<lparr>Wirkstoff = ''Ibuprofen'', Indikation = ''Fever'', FORTA = ''B''\<rparr>])
   \<and> ''Ibuprofen'' \<notin> Wirkstoff ` set (make_forta_df [PStr ''Ibuprofen''] {''Pain''}
       [\<lparr>Wirkstoff = ''ASS'', Indikation = ''Pain'', FORTA = ''A''\<rparr>,
        \<lparr>Wirkstoff = ''Ibuprofen'', Indikation = ''Fever'', FORTA = ''B''\<rparr>])"
proof -
  define s where "s = map_of ((''medication'', PList [PStr ''ASS'']) #
        map (\<lambda>i. (medication_key i, if i = 1 then PStr ''Ibuprofen'' else PNone)) [1 ..< 21])"
  define cm :: comorbidity_mapping where "cm = [(''D'', [[]])]"
  define fm :: forta_mapping where "fm = [''D'' \<mapsto> [Unconditional ''Pain'']]"
  define db where "db = [\<lparr>Wirkstoff = ''ASS'', Indikation = ''Pain'', FORTA = ''A''\<rparr>,
      \<lparr>Wirkstoff = ''Ibuprofen'', Indikation = ''Fever'', FORTA = ''B''\<rparr>]"
  define df where "df = make_forta_df [PStr ''Ibuprofen''] {''Pain''} db"
  have c: "get_comorbidities s cm = Inr [''D'']"
    unfolding s_def cm_def by code_simp
  have f: "get_forta_indications s [''D''] fm = Inr {''Pain''}"
    unfolding s_def fm_def by code_simp
  have m: "get_medication s = Inr [PStr ''Ibuprofen'']"
    unfolding s_def by code_simp
  have v: "s ''medication'' = Some (PList [PStr ''ASS''])"
    unfolding s_def by simp
  have n: "medication_names (PList [PStr ''ASS'']) = Inr [''ASS'']"
    by (simp add: medication_names_def)
  from c f m v n have st: "get_comorbidities s cm = Inr [''D'']
      \<and> get_forta_indications s [''D''] fm = Inr {''Pain''}
      \<and> get_medication s = Inr [PStr ''Ibuprofen'']
      \<and> s ''medication'' = Some (PList [PStr ''ASS''])
      \<and> medication_names (PList [PStr ''ASS'']) = Inr [''ASS'']"
    by (intro conjI)
  have a: "''ASS'' \<in> set [''ASS''] \<and> PStr ''ASS'' \<notin> set [PStr ''Ibuprofen'']"
    by simp
  have i: "PStr ''Ibuprofen'' \<in> set [PStr ''Ibuprofen''] \<and> ''Ibuprofen'' \<notin> set [''ASS'']
      \<and> (\<forall>r \<in> set db. Wirkstoff r = ''Ibuprofen'' \<longrightarrow> Indikation r \<notin> {''Pain''})"
    by (simp add: db_def)
  note ta = positional_and_aggregate [where sample = s and cm = cm and fm = fm and db = db
      and c = "[''D'']" and f = "{''Pain''}" and m = "[PStr ''Ibuprofen'']"
      and v = "PList [PStr ''ASS'']" and names = "[''ASS'']" and x = "''ASS''",
      THEN conjunct2, THEN conjunct1, THEN mp, OF st, folded df_def]
  note ti = positional_and_aggregate [where sample = s and cm = cm and fm = fm and db = db
      and c = "[''D'']" and f = "{''Pain''}" and m = "[PStr ''Ibuprofen'']"
      and v = "PList [PStr ''ASS'']" and names = "[''ASS'']" and x = "''Ibuprofen''",
      THEN conjunct2, THEN conjunct1, THEN mp, OF st, folded df_def]
  note r = ta [THEN conjunct1]
  note e = ta [THEN conjunct2, THEN conjunct1]
  from ta [THEN conjunct2, THEN conjunct2, THEN conjunct1, THEN mp, OF a]
  have 1: "''ASS'' \<notin> Wirkstoff ` set df" ..
  from ti [THEN conjunct2, THEN conjunct2, THEN conjunct2, THEN mp, OF i]
  have 2: "''Ibuprofen'' \<notin> Wirkstoff ` set df" ..
  have z: "{r \<in> set db. PStr (Wirkstoff r) \<in> set [PStr ''Ibuprofen''] \<and> Indikation r \<in> {''Pain''}} = {}"
    unfolding db_def by auto
  from e [unfolded z] have "df = []" by (simp only: set_empty)
  with r have 3: "get_forta_list s cm fm db =
      Inr [\<lparr>Wirkstoff = ''ASS'', Indikation = placeholder_indication, FORTA = ''-''\<rparr>]"
    by simp
  from positional_and_aggregate [where sample = s and cm = cm and fm = fm and db = db
      and rows = "[\<lparr>Wirkstoff = ''ASS'', Indikation = placeholder_indication, FORTA = ''-''\<rparr>]",
      THEN conjunct1, THEN mp, OF 3]
  have 4: "\<exists>m'. get_medication s = Inr m'"
    by blast
  from 1 2 3 m show ?thesis
    unfolding s_def cm_def fm_def db_def df_def by blast
qed

end
